theory Spec2Isabelle
  imports Complex_Main
begin

section \<open>Data model of \<open>app.py\<close>\<close>

text \<open>
  The five SQLAlchemy models become records, one field per column. A table is the list of
  its rows in insertion (rowid) order. \<open>db.Float\<close> columns and JSON numbers are exact
  rationals: the properties below are about which expression a handler evaluates and which
  branch it takes, not about binary rounding. \<open>db.DateTime\<close> values are points on an
  integer time line, and every clock read of one request sees the same instant \<open>now\<close>.

  A column is an \<open>option\<close> where a row can hold NULL: the columns without a default of
  \<open>Coupon\<close> (coupons are never written by a handler except for the usage counter), and the
  columns of the other models that the creating handler leaves unset or fills from an
  optional request field.
\<close>

type_synonym time = int

datatype pwhash = PwHash string
  \<comment> \<open>\<open>generate_password_hash(p)\<close>; \<open>check_password_hash\<close> accepts exactly \<open>p\<close>\<close>

record user =
  u_id :: nat
  u_phone :: string
  u_name :: "string option"
  u_email :: "string option"
  u_password_hash :: "pwhash option"
  u_role :: string
  u_created_at :: time

record partner =
  p_id :: nat
  p_user_id :: nat
  p_business_name :: string
  p_address :: string
  p_city :: string
  p_pincode :: string
  p_gst_number :: "string option"
  p_bank_account :: string
  p_ifsc_code :: string
  p_status :: string
  p_commission_rate :: rat
  p_rating :: rat
  p_total_orders :: int
  p_created_at :: time

record service =
  sv_id :: nat
  sv_name :: string
  sv_category :: "string option"
  sv_base_price :: rat
  sv_description :: "string option"
  sv_image_url :: "string option"
  sv_is_active :: bool

record order =
  o_id :: nat
  o_order_number :: string
  o_customer_id :: nat
  o_partner_id :: "nat option"
  o_service_id :: nat
  o_racquet_type :: "string option"
  o_string_type :: "string option"
  o_tension :: "string option"
  o_pickup_address :: "string option"
  o_pickup_slot :: "time option"
  o_base_price :: rat
  o_string_price :: rat
  o_discount :: rat
  o_total_price :: rat
  o_status :: string
  o_payment_status :: string
  o_payment_method :: string
  o_pickup_tracking_id :: "string option"
  o_delivery_tracking_id :: "string option"
  o_created_at :: time
  o_updated_at :: time
  o_completed_at :: "time option"

record coupon =
  c_id :: nat
  c_code :: string
  c_discount_type :: "string option"
  c_discount_value :: "rat option"
  c_min_order_value :: rat
  c_max_discount :: "rat option"
  c_valid_from :: "time option"
  c_valid_until :: "time option"
  c_usage_limit :: "int option"
  c_usage_count :: int
  c_is_active :: bool

record db =
  users :: "user list"
  partners :: "partner list"
  services :: "service list"
  orders :: "order list"
  coupons :: "coupon list"

text \<open>
  The Flask session holds the keys \<open>user_id\<close> and \<open>role\<close>; every handler that writes one
  writes both, and \<open>session.clear()\<close> removes both, so a session is either absent or
  carries both.
\<close>

record sess =
  user_id :: nat
  role :: string

type_synonym session = "sess option"

subsection \<open>Responses and exceptions\<close>

text \<open>
  \<open>jsonify\<close> bodies. \<open>JIso t\<close> is \<open>t.isoformat()\<close>; \<open>JFStr\<close> is an f-string, kept as its
  literal parts and the values formatted into it.
\<close>

datatype fpart = Lit string | Val rat

datatype json =
    JNull
  | JBool bool
  | JInt int
  | JNum rat
  | JStr string
  | JIso time
  | JFStr "fpart list"
  | JArr "json list"
  | JObj "(string \<times> json) list"

datatype exn = KeyError | ValueError | TypeError | AttributeError | IntegrityError

text \<open>
  A handler either returns a response (status code and body) or lets an exception escape,
  in which case nothing was committed.
\<close>

datatype outcome = Response nat json | Raised exn

fun status_code :: "outcome \<Rightarrow> nat option" where
  "status_code (Response st b) = Some st"
| "status_code (Raised e) = None"

definition error_body :: "string \<Rightarrow> json" where
  "error_body msg = JObj [(''error'', JStr msg)]"

definition message_body :: "string \<Rightarrow> json" where
  "message_body msg = JObj [(''message'', JStr msg)]"

definition jstr_opt :: "string option \<Rightarrow> json" where
  "jstr_opt s = (case s of None \<Rightarrow> JNull | Some x \<Rightarrow> JStr x)"

definition jnum_opt :: "rat option \<Rightarrow> json" where
  "jnum_opt s = (case s of None \<Rightarrow> JNull | Some x \<Rightarrow> JNum x)"

definition jiso_opt :: "time option \<Rightarrow> json" where
  "jiso_opt s = (case s of None \<Rightarrow> JNull | Some x \<Rightarrow> JIso x)"

subsection \<open>Queries\<close>

text \<open>
  \<open>Model.query.get(i)\<close> and \<open>filter_by(...).first()\<close> are \<open>find\<close> on the table;
  an attribute assignment on the object a query returned updates that one row
  (\<open>update_first\<close>); an insert appends a row with the next primary key.
\<close>

fun update_first :: "('a \<Rightarrow> bool) \<Rightarrow> ('a \<Rightarrow> 'a) \<Rightarrow> 'a list \<Rightarrow> 'a list" where
  "update_first P f [] = []"
| "update_first P f (x # xs) = (if P x then f x # xs else x # update_first P f xs)"

definition next_id :: "nat list \<Rightarrow> nat" where
  "next_id ids = Suc (fold max ids 0)"

definition get_user :: "db \<Rightarrow> nat \<Rightarrow> user option" where
  "get_user d i = find (\<lambda>u. u_id u = i) (users d)"

definition get_partner :: "db \<Rightarrow> nat \<Rightarrow> partner option" where
  "get_partner d i = find (\<lambda>p. p_id p = i) (partners d)"

definition get_service :: "db \<Rightarrow> nat \<Rightarrow> service option" where
  "get_service d i = find (\<lambda>s. sv_id s = i) (services d)"

definition get_order :: "db \<Rightarrow> nat \<Rightarrow> order option" where
  "get_order d i = find (\<lambda>r. o_id r = i) (orders d)"

definition partner_of_user :: "db \<Rightarrow> nat \<Rightarrow> partner option" where
  \<comment> \<open>\<open>Partner.query.filter_by(user_id=...).first()\<close>\<close>
  "partner_of_user d uid = find (\<lambda>p. p_user_id p = uid) (partners d)"

definition active_coupon :: "db \<Rightarrow> string \<Rightarrow> coupon option" where
  \<comment> \<open>\<open>Coupon.query.filter_by(code=..., is_active=True).first()\<close>\<close>
  "active_coupon d code = find (\<lambda>c. c_code c = code \<and> c_is_active c) (coupons d)"

definition order_by_created_desc :: "order list \<Rightarrow> order list" where
  \<comment> \<open>\<open>order_by(Order.created_at.desc())\<close>; rows created at the same instant stay in table order\<close>
  "order_by_created_desc rs = sort_key (\<lambda>r. - o_created_at r) rs"

definition cap_discount :: "rat option \<Rightarrow> rat \<Rightarrow> rat" where
  \<comment> \<open>\<open>if coupon.max_discount: discount = min(discount, coupon.max_discount)\<close>;
      \<open>None\<close> and \<open>0\<close> are false in Python\<close>
  "cap_discount mx dsc = (case mx of None \<Rightarrow> dsc | Some m \<Rightarrow> if m \<noteq> 0 then min dsc m else dsc)"

definition usage_limit_reached :: "coupon \<Rightarrow> bool" where
  \<comment> \<open>\<open>coupon.usage_limit and coupon.usage_count >= coupon.usage_limit\<close>\<close>
  "usage_limit_reached c =
    (case c_usage_limit c of None \<Rightarrow> False | Some l \<Rightarrow> l \<noteq> 0 \<and> c_usage_count c \<ge> l)"

section \<open>Authentication\<close>

record register_data =
  rd_phone :: "string option"
  rd_password :: "string option"
  rd_name :: "string option"
  rd_email :: "string option"
  rd_role :: "string option"

definition user_public :: "user \<Rightarrow> json" where
  "user_public u = JObj [(''id'', JInt (int (u_id u))), (''name'', jstr_opt (u_name u)),
     (''phone'', JStr (u_phone u)), (''role'', JStr (u_role u))]"

definition register :: "session \<Rightarrow> db \<Rightarrow> time \<Rightarrow> register_data \<Rightarrow> session \<times> db \<times> outcome" where
  "register s d now data =
    (case rd_phone data of
       None \<Rightarrow> (s, d, Raised KeyError)
     | Some ph \<Rightarrow>
        if find (\<lambda>u. u_phone u = ph) (users d) \<noteq> None
        then (s, d, Response 400 (error_body ''Phone number already registered''))
        else
          (case rd_password data of
             None \<Rightarrow> (s, d, Raised KeyError)
           | Some pw \<Rightarrow>
              let u = \<lparr> u_id = next_id (map u_id (users d)), u_phone = ph,
                        u_name = rd_name data, u_email = rd_email data,
                        u_password_hash = Some (PwHash pw),
                        u_role = (case rd_role data of None \<Rightarrow> ''customer'' | Some r \<Rightarrow> r),
                        u_created_at = now \<rparr>
              in (Some \<lparr> user_id = u_id u, role = u_role u \<rparr>,
                  d\<lparr> users := users d @ [u] \<rparr>,
                  Response 201 (JObj [(''message'', JStr ''Registration successful''),
                                      (''user'', user_public u)]))))"

definition get_current_user :: "session \<Rightarrow> db \<Rightarrow> outcome" where
  "get_current_user s d =
    (case s of
       None \<Rightarrow> Response 401 (error_body ''Not authenticated'')
     | Some ss \<Rightarrow>
        (case get_user d (user_id ss) of
           None \<Rightarrow> Raised AttributeError
         | Some u \<Rightarrow> Response 200 (JObj [(''id'', JInt (int (u_id u))),
             (''name'', jstr_opt (u_name u)), (''phone'', JStr (u_phone u)),
             (''email'', jstr_opt (u_email u)), (''role'', JStr (u_role u))])))"

section \<open>Customer endpoints\<close>

text \<open>
  The body of \<open>POST /api/orders\<close>. \<open>service_id\<close> and \<open>pickup_slot\<close> are read with
  \<open>data[...]\<close> (KeyError when absent), the rest with \<open>data.get\<close>. \<open>pickup_slot\<close> goes
  through \<open>datetime.fromisoformat\<close>, which raises ValueError on a malformed string.
\<close>

datatype slot_field = SlotAbsent | SlotMalformed | SlotTime time

record order_data =
  od_service_id :: "nat option"
  od_racquet_type :: "string option"
  od_string_type :: "string option"
  od_tension :: "string option"
  od_pickup_address :: "string option"
  od_pickup_slot :: slot_field
  od_string_price :: "rat option"
  od_coupon_code :: "string option"
  od_payment_method :: "string option"

text \<open>
  Lines 242--256 of \<open>create_order\<close>: the discount and the coupon table after the coupon
  step. A NULL \<open>valid_until\<close> fails the comparison with a TypeError. A NULL
  \<open>discount_value\<close> fails the division of the percentage branch or, in the other branch,
  the subtraction that computes \<open>total_price\<close>: a TypeError either way, before anything is
  committed.
\<close>

definition bump_usage :: "string \<Rightarrow> coupon list \<Rightarrow> coupon list" where
  \<comment> \<open>\<open>coupon.usage_count += 1\<close> on the row the query returned\<close>
  "bump_usage code cs = update_first (\<lambda>x. c_code x = code \<and> c_is_active x)
     (\<lambda>x. x\<lparr> c_usage_count := c_usage_count x + 1 \<rparr>) cs"

definition apply_coupon ::
  "db \<Rightarrow> time \<Rightarrow> rat \<Rightarrow> rat \<Rightarrow> string option \<Rightarrow> exn + (rat \<times> coupon list)" where
  "apply_coupon d now base_price string_price code_opt =
    (case code_opt of
       None \<Rightarrow> Inr (0, coupons d)
     | Some code \<Rightarrow>
        if code = [] then Inr (0, coupons d)
        else
          (case active_coupon d code of
             None \<Rightarrow> Inr (0, coupons d)
           | Some c \<Rightarrow>
              (case c_valid_until c of
                 None \<Rightarrow> Inl TypeError
               | Some vu \<Rightarrow>
                  if vu > now then
                    (case c_discount_value c of
                       None \<Rightarrow> Inl TypeError
                     | Some v \<Rightarrow>
                        let discount =
                              (if c_discount_type c = Some ''percentage''
                               then cap_discount (c_max_discount c)
                                      ((base_price + string_price) * (v / 100))
                               else v)
                        in Inr (discount, bump_usage code (coupons d)))
                  else Inr (0, coupons d))))"

definition get_string_price :: "order_data \<Rightarrow> rat" where
  \<comment> \<open>\<open>data.get('string_price', 0)\<close>\<close>
  "get_string_price data = (case od_string_price data of None \<Rightarrow> 0 | Some p \<Rightarrow> p)"

definition new_order ::
  "db \<Rightarrow> time \<Rightarrow> string \<Rightarrow> nat \<Rightarrow> nat \<Rightarrow> order_data \<Rightarrow> time \<Rightarrow> rat \<Rightarrow> rat \<Rightarrow> rat \<Rightarrow> rat \<Rightarrow> order" where
  \<comment> \<open>the \<open>Order(...)\<close> constructor call, with the column defaults and the next primary key\<close>
  "new_order d now order_number uid sid data slot base_price string_price discount total_price =
    \<lparr> o_id = next_id (map o_id (orders d)),
      o_order_number = order_number,
      o_customer_id = uid,
      o_partner_id = None,
      o_service_id = sid,
      o_racquet_type = od_racquet_type data,
      o_string_type = od_string_type data,
      o_tension = od_tension data,
      o_pickup_address = od_pickup_address data,
      o_pickup_slot = Some slot,
      o_base_price = base_price,
      o_string_price = string_price,
      o_discount = discount,
      o_total_price = total_price,
      o_status = ''pending'',
      o_payment_status = ''pending'',
      o_payment_method = (case od_payment_method data of None \<Rightarrow> ''online'' | Some m \<Rightarrow> m),
      o_pickup_tracking_id = None,
      o_delivery_tracking_id = None,
      o_created_at = now,
      o_updated_at = now,
      o_completed_at = None \<rparr>"

definition create_order ::
  "session \<Rightarrow> db \<Rightarrow> time \<Rightarrow> string \<Rightarrow> order_data \<Rightarrow> db \<times> outcome" where
  "create_order s d now order_number data =
    (case s of
       None \<Rightarrow> (d, Response 401 (error_body ''Not authenticated''))
     | Some ss \<Rightarrow>
        (case od_service_id data of
           None \<Rightarrow> (d, Raised KeyError)
         | Some sid \<Rightarrow>
            (case get_service d sid of
               None \<Rightarrow> (d, Response 404 (error_body ''Service not found''))
             | Some svc \<Rightarrow>
                let base_price = sv_base_price svc;
                    string_price = get_string_price data
                in
                (case apply_coupon d now base_price string_price (od_coupon_code data) of
                   Inl e \<Rightarrow> (d, Raised e)
                 | Inr (discount, coupons') \<Rightarrow>
                    let total_price = base_price + string_price - discount in
                    (case od_pickup_slot data of
                       SlotAbsent \<Rightarrow> (d, Raised KeyError)
                     | SlotMalformed \<Rightarrow> (d, Raised ValueError)
                     | SlotTime slot \<Rightarrow>
                        if order_number \<in> set (map o_order_number (orders d))
                        then (d, Raised IntegrityError)
                        else
                          let ord = new_order d now order_number (user_id ss) sid data slot
                                      base_price string_price discount total_price
                          in (d\<lparr> orders := orders d @ [ord], coupons := coupons' \<rparr>,
                              Response 201 (JObj [
                                (''message'', JStr ''Order created successfully''),
                                (''order_number'', JStr order_number),
                                (''order_id'', JInt (int (o_id ord))),
                                (''total_price'', JNum total_price)])))))))"

definition my_order_row :: "db \<Rightarrow> order \<Rightarrow> json option" where
  \<comment> \<open>one element of the list comprehension; \<open>None\<close> when \<open>o.service\<close> is \<open>None\<close>\<close>
  "my_order_row d r =
    (case get_service d (o_service_id r) of
       None \<Rightarrow> None
     | Some sv \<Rightarrow> Some (JObj [(''id'', JInt (int (o_id r))),
         (''order_number'', JStr (o_order_number r)),
         (''service_name'', JStr (sv_name sv)),
         (''status'', JStr (o_status r)),
         (''total_price'', JNum (o_total_price r)),
         (''pickup_slot'', jiso_opt (o_pickup_slot r)),
         (''created_at'', JIso (o_created_at r))]))"

definition get_my_orders :: "session \<Rightarrow> db \<Rightarrow> outcome" where
  "get_my_orders s d =
    (case s of
       None \<Rightarrow> Response 401 (error_body ''Not authenticated'')
     | Some ss \<Rightarrow>
        (case those (map (my_order_row d)
                 (order_by_created_desc (filter (\<lambda>r. o_customer_id r = user_id ss) (orders d)))) of
           None \<Rightarrow> Raised AttributeError
         | Some rows \<Rightarrow> Response 200 (JArr rows)))"

definition order_partner :: "db \<Rightarrow> order \<Rightarrow> partner option" where
  \<comment> \<open>the relationship \<open>order.partner\<close>\<close>
  "order_partner d r = (case o_partner_id r of None \<Rightarrow> None | Some i \<Rightarrow> get_partner d i)"

definition order_detail_body :: "db \<Rightarrow> order \<Rightarrow> service \<Rightarrow> json" where
  "order_detail_body d r sv = JObj [(''id'', JInt (int (o_id r))),
     (''order_number'', JStr (o_order_number r)),
     (''service'', JObj [(''name'', JStr (sv_name sv)), (''category'', jstr_opt (sv_category sv))]),
     (''racquet_type'', jstr_opt (o_racquet_type r)),
     (''string_type'', jstr_opt (o_string_type r)),
     (''tension'', jstr_opt (o_tension r)),
     (''pickup_address'', jstr_opt (o_pickup_address r)),
     (''pickup_slot'', jiso_opt (o_pickup_slot r)),
     (''base_price'', JNum (o_base_price r)),
     (''string_price'', JNum (o_string_price r)),
     (''discount'', JNum (o_discount r)),
     (''total_price'', JNum (o_total_price r)),
     (''status'', JStr (o_status r)),
     (''payment_status'', JStr (o_payment_status r)),
     (''created_at'', JIso (o_created_at r)),
     (''partner'', (case order_partner d r of
                      None \<Rightarrow> JNull
                    | Some p \<Rightarrow> JObj [(''business_name'', JStr (p_business_name p))]))]"

definition get_order_details :: "session \<Rightarrow> db \<Rightarrow> nat \<Rightarrow> outcome" where
  "get_order_details s d order_id =
    (case s of
       None \<Rightarrow> Response 401 (error_body ''Not authenticated'')
     | Some ss \<Rightarrow>
        (case get_order d order_id of
           None \<Rightarrow> Response 404 (error_body ''Order not found'')
         | Some r \<Rightarrow>
            if role ss = ''customer'' \<and> o_customer_id r \<noteq> user_id ss
            then Response 403 (error_body ''Unauthorized'')
            else
              (case get_service d (o_service_id r) of
                 None \<Rightarrow> Raised AttributeError
               | Some sv \<Rightarrow> Response 200 (order_detail_body d r sv))))"

record coupon_data =
  cd_code :: "string option"
  cd_order_value :: "rat option"

definition rupee :: string where
  \<comment> \<open>the UTF-8 bytes of U+20B9\<close>
  "rupee = [CHR 0xE2, CHR 0x82, CHR 0xB9]"

definition min_order_message :: "rat \<Rightarrow> json" where
  "min_order_message m = JFStr [Lit (''Minimum order value '' @ rupee), Val m, Lit '' required'']"

definition get_order_value :: "coupon_data \<Rightarrow> rat" where
  \<comment> \<open>\<open>data.get('order_value', 0)\<close>\<close>
  "get_order_value data = (case cd_order_value data of None \<Rightarrow> 0 | Some v \<Rightarrow> v)"

definition validate_coupon :: "db \<Rightarrow> time \<Rightarrow> coupon_data \<Rightarrow> outcome" where
  "validate_coupon d now data =
    (case cd_code data of
       None \<Rightarrow> Raised KeyError
     | Some code \<Rightarrow>
        (case active_coupon d code of
           None \<Rightarrow> Response 404 (error_body ''Invalid coupon code'')
         | Some c \<Rightarrow>
            (case c_valid_until c of
               None \<Rightarrow> Raised TypeError
             | Some vu \<Rightarrow>
                if vu < now then Response 400 (error_body ''Coupon has expired'')
                else if usage_limit_reached c
                then Response 400 (error_body ''Coupon usage limit reached'')
                else
                  let order_value = get_order_value data in
                  if order_value < c_min_order_value c
                  then Response 400 (JObj [(''error'', min_order_message (c_min_order_value c))])
                  else if c_discount_type c = Some ''percentage'' then
                    (case c_discount_value c of
                       None \<Rightarrow> Raised TypeError
                     | Some v \<Rightarrow>
                        let discount = cap_discount (c_max_discount c) (order_value * (v / 100))
                        in Response 200 (JObj [(''valid'', JBool True),
                             (''discount'', JNum discount),
                             (''discount_type'', jstr_opt (c_discount_type c)),
                             (''discount_value'', jnum_opt (c_discount_value c))]))
                  else Response 200 (JObj [(''valid'', JBool True),
                         (''discount'', jnum_opt (c_discount_value c)),
                         (''discount_type'', jstr_opt (c_discount_type c)),
                         (''discount_value'', jnum_opt (c_discount_value c))]))))"

section \<open>Partner endpoints\<close>

record partner_data =
  pd_business_name :: "string option"
  pd_address :: "string option"
  pd_city :: "string option"
  pd_pincode :: "string option"
  pd_gst_number :: "string option"
  pd_bank_account :: "string option"
  pd_ifsc_code :: "string option"

definition new_partner :: "db \<Rightarrow> time \<Rightarrow> nat \<Rightarrow> partner_data \<Rightarrow> partner option" where
  \<comment> \<open>the \<open>Partner(...)\<close> constructor call; \<open>None\<close> is the KeyError of a missing \<open>data[...]\<close>\<close>
  "new_partner d now uid data =
    (case (pd_business_name data, pd_address data, pd_city data, pd_pincode data,
           pd_bank_account data, pd_ifsc_code data) of
       (Some bn, Some ad, Some ci, Some pc, Some ba, Some ic) \<Rightarrow>
         Some \<lparr> p_id = next_id (map p_id (partners d)), p_user_id = uid,
                p_business_name = bn, p_address = ad, p_city = ci, p_pincode = pc,
                p_gst_number = pd_gst_number data, p_bank_account = ba, p_ifsc_code = ic,
                p_status = ''pending'', p_commission_rate = 20, p_rating = 0,
                p_total_orders = 0, p_created_at = now \<rparr>
     | _ \<Rightarrow> None)"

definition register_partner ::
  "session \<Rightarrow> db \<Rightarrow> time \<Rightarrow> partner_data \<Rightarrow> session \<times> db \<times> outcome" where
  "register_partner s d now data =
    (case s of
       None \<Rightarrow> (s, d, Response 401 (error_body ''Not authenticated''))
     | Some ss \<Rightarrow>
        (case new_partner d now (user_id ss) data of
           None \<Rightarrow> (s, d, Raised KeyError)
         | Some p \<Rightarrow>
            (case get_user d (user_id ss) of
               None \<Rightarrow> (s, d, Raised AttributeError)
             | Some u \<Rightarrow>
                (Some (ss\<lparr> role := ''partner'' \<rparr>),
                 d\<lparr> partners := partners d @ [p],
                    users := update_first (\<lambda>x. u_id x = user_id ss)
                               (\<lambda>x. x\<lparr> u_role := ''partner'' \<rparr>) (users d) \<rparr>,
                 Response 201 (message_body ''Partner registration submitted for approval'')))))"

definition partner_order_row :: "db \<Rightarrow> order \<Rightarrow> json option" where
  "partner_order_row d r =
    (case get_user d (o_customer_id r) of
       None \<Rightarrow> None
     | Some cu \<Rightarrow>
        (case get_service d (o_service_id r) of
           None \<Rightarrow> None
         | Some sv \<Rightarrow> Some (JObj [(''id'', JInt (int (o_id r))),
             (''order_number'', JStr (o_order_number r)),
             (''customer_name'', jstr_opt (u_name cu)),
             (''service_name'', JStr (sv_name sv)),
             (''status'', JStr (o_status r)),
             (''total_price'', JNum (o_total_price r)),
             (''pickup_slot'', jiso_opt (o_pickup_slot r)),
             (''created_at'', JIso (o_created_at r))])))"

definition filter_status :: "string option \<Rightarrow> order list \<Rightarrow> order list" where
  \<comment> \<open>\<open>if status_filter: query = query.filter_by(status=status_filter)\<close>\<close>
  "filter_status sf rs =
    (case sf of
       None \<Rightarrow> rs
     | Some st \<Rightarrow> if st = [] then rs else filter (\<lambda>r. o_status r = st) rs)"

definition get_partner_orders :: "session \<Rightarrow> db \<Rightarrow> string option \<Rightarrow> outcome" where
  "get_partner_orders s d status_filter =
    (case s of
       None \<Rightarrow> Response 403 (error_body ''Unauthorized'')
     | Some ss \<Rightarrow>
        if role ss \<noteq> ''partner'' then Response 403 (error_body ''Unauthorized'')
        else
          (case partner_of_user d (user_id ss) of
             None \<Rightarrow> Response 404 (error_body ''Partner profile not found'')
           | Some p \<Rightarrow>
              (case those (map (partner_order_row d)
                       (order_by_created_desc (filter_status status_filter
                          (filter (\<lambda>r. o_partner_id r = Some (p_id p)) (orders d))))) of
                 None \<Rightarrow> Raised AttributeError
               | Some rows \<Rightarrow> Response 200 (JArr rows))))"

record status_data =
  sd_status :: "string option"

definition mark_delivered :: "time \<Rightarrow> nat \<Rightarrow> nat \<Rightarrow> db \<Rightarrow> db" where
  \<comment> \<open>the body of \<open>if data['status'] == 'delivered'\<close>\<close>
  "mark_delivered now order_id uid d =
    d\<lparr> orders := update_first (\<lambda>x. o_id x = order_id)
                     (\<lambda>x. x\<lparr> o_completed_at := Some now \<rparr>) (orders d),
       partners := update_first (\<lambda>x. p_user_id x = uid)
                     (\<lambda>x. x\<lparr> p_total_orders := p_total_orders x + 1 \<rparr>) (partners d) \<rparr>"

definition update_order_status ::
  "session \<Rightarrow> db \<Rightarrow> time \<Rightarrow> nat \<Rightarrow> status_data \<Rightarrow> db \<times> outcome" where
  "update_order_status s d now order_id data =
    (case s of
       None \<Rightarrow> (d, Response 403 (error_body ''Unauthorized''))
     | Some ss \<Rightarrow>
        if role ss \<noteq> ''partner'' then (d, Response 403 (error_body ''Unauthorized''))
        else
          (case get_order d order_id of
             None \<Rightarrow> (d, Response 404 (error_body ''Order not found''))
           | Some r \<Rightarrow>
              (case partner_of_user d (user_id ss) of
                 None \<Rightarrow> (d, Raised AttributeError)
               | Some p \<Rightarrow>
                  if o_partner_id r \<noteq> Some (p_id p)
                  then (d, Response 404 (error_body ''Order not found''))
                  else
                    (case sd_status data of
                       None \<Rightarrow> (d, Raised KeyError)
                     | Some st \<Rightarrow>
                        let d1 = d\<lparr> orders := update_first (\<lambda>x. o_id x = order_id)
                                   (\<lambda>x. x\<lparr> o_status := st, o_updated_at := now \<rparr>) (orders d) \<rparr>;
                            d2 = (if st = ''delivered''
                                  then mark_delivered now order_id (user_id ss) d1 else d1)
                        in (d2, Response 200 (message_body ''Order status updated''))))))"

section \<open>Admin endpoints\<close>

definition has_role :: "session \<Rightarrow> string \<Rightarrow> bool" where
  \<comment> \<open>the negation of \<open>'user_id' not in session or session['role'] != r\<close>\<close>
  "has_role s r = (case s of None \<Rightarrow> False | Some ss \<Rightarrow> role ss = r)"

definition partner_row :: "partner \<Rightarrow> json" where
  "partner_row p = JObj [(''id'', JInt (int (p_id p))),
     (''business_name'', JStr (p_business_name p)),
     (''city'', JStr (p_city p)),
     (''status'', JStr (p_status p)),
     (''rating'', JNum (p_rating p)),
     (''total_orders'', JInt (p_total_orders p)),
     (''commission_rate'', JNum (p_commission_rate p)),
     (''created_at'', JIso (p_created_at p))]"

definition get_all_partners :: "session \<Rightarrow> db \<Rightarrow> outcome" where
  "get_all_partners s d =
    (if \<not> has_role s ''admin'' then Response 403 (error_body ''Unauthorized'')
     else Response 200 (JArr (map partner_row (partners d))))"

definition approve_partner :: "session \<Rightarrow> db \<Rightarrow> nat \<Rightarrow> db \<times> outcome" where
  "approve_partner s d partner_id =
    (if \<not> has_role s ''admin'' then (d, Response 403 (error_body ''Unauthorized''))
     else
       (case get_partner d partner_id of
          None \<Rightarrow> (d, Response 404 (error_body ''Partner not found''))
        | Some p \<Rightarrow>
           (d\<lparr> partners := update_first (\<lambda>x. p_id x = partner_id)
                              (\<lambda>x. x\<lparr> p_status := ''approved'' \<rparr>) (partners d) \<rparr>,
            Response 200 (message_body ''Partner approved''))))"

definition admin_order_row :: "db \<Rightarrow> order \<Rightarrow> json option" where
  "admin_order_row d r =
    (case get_user d (o_customer_id r) of
       None \<Rightarrow> None
     | Some cu \<Rightarrow>
        (case get_service d (o_service_id r) of
           None \<Rightarrow> None
         | Some sv \<Rightarrow> Some (JObj [(''id'', JInt (int (o_id r))),
             (''order_number'', JStr (o_order_number r)),
             (''customer_name'', jstr_opt (u_name cu)),
             (''service_name'', JStr (sv_name sv)),
             (''partner_name'', (case order_partner d r of
                                   None \<Rightarrow> JNull
                                 | Some p \<Rightarrow> JStr (p_business_name p))),
             (''status'', JStr (o_status r)),
             (''total_price'', JNum (o_total_price r)),
             (''created_at'', JIso (o_created_at r))])))"

definition get_all_orders :: "session \<Rightarrow> db \<Rightarrow> string option \<Rightarrow> outcome" where
  "get_all_orders s d status_filter =
    (if \<not> has_role s ''admin'' then Response 403 (error_body ''Unauthorized'')
     else
       (case those (map (admin_order_row d)
                (take 100 (order_by_created_desc (filter_status status_filter (orders d))))) of
          None \<Rightarrow> Raised AttributeError
        | Some rows \<Rightarrow> Response 200 (JArr rows)))"

text \<open>
  The body of the assignment request: \<open>None\<close> is a missing \<open>partner_id\<close> key,
  \<open>Some None\<close> a JSON null.
\<close>

record assign_data =
  ad_partner_id :: "nat option option"

definition assign_partner ::
  "session \<Rightarrow> db \<Rightarrow> time \<Rightarrow> nat \<Rightarrow> assign_data \<Rightarrow> db \<times> outcome" where
  "assign_partner s d now order_id data =
    (if \<not> has_role s ''admin'' then (d, Response 403 (error_body ''Unauthorized''))
     else
       (case get_order d order_id of
          None \<Rightarrow> (d, Response 404 (error_body ''Order not found''))
        | Some r \<Rightarrow>
           (case ad_partner_id data of
              None \<Rightarrow> (d, Raised KeyError)
            | Some pid \<Rightarrow>
               (d\<lparr> orders := update_first (\<lambda>x. o_id x = order_id)
                                (\<lambda>x. x\<lparr> o_partner_id := pid, o_status := ''assigned'',
                                        o_updated_at := now \<rparr>) (orders d) \<rparr>,
                Response 200 (message_body ''Partner assigned successfully'')))))"

definition get_analytics :: "session \<Rightarrow> db \<Rightarrow> outcome" where
  "get_analytics s d =
    (if \<not> has_role s ''admin'' then Response 403 (error_body ''Unauthorized'')
     else Response 200 (JObj [
       (''total_orders'', JInt (int (length (orders d)))),
       (''total_revenue'', JNum (sum_list (map o_total_price (orders d)))),
       (''active_partners'',
          JInt (int (length (filter (\<lambda>p. p_status p = ''approved'') (partners d))))),
       (''pending_orders'',
          JInt (int (length (filter (\<lambda>r. o_status r = ''pending'') (orders d)))))]))"

section \<open>Routing\<close>

text \<open>
  One constructor per modelled route, with the URL parameters, the query string and the
  JSON body the handler reads. \<open>CreateOrder\<close> also carries the order number that the
  handler derives from the local date and \<open>secrets.token_hex\<close>. The routes left out
  (login, logout, the service list and the static files) never test the session.
\<close>

datatype request =
    Register register_data
  | GetCurrentUser
  | CreateOrder string order_data
  | GetMyOrders
  | GetOrderDetails nat
  | ValidateCoupon coupon_data
  | RegisterPartner partner_data
  | GetPartnerOrders "string option"
  | UpdateOrderStatus nat status_data
  | GetAllPartners
  | ApprovePartner nat
  | GetAllOrders "string option"
  | AssignPartner nat assign_data
  | GetAnalytics

fun handle :: "session \<Rightarrow> db \<Rightarrow> time \<Rightarrow> request \<Rightarrow> session \<times> db \<times> outcome" where
  "handle s d now (Register data) = register s d now data"
| "handle s d now GetCurrentUser = (s, d, get_current_user s d)"
| "handle s d now (CreateOrder num data) = (s, create_order s d now num data)"
| "handle s d now GetMyOrders = (s, d, get_my_orders s d)"
| "handle s d now (GetOrderDetails i) = (s, d, get_order_details s d i)"
| "handle s d now (ValidateCoupon data) = (s, d, validate_coupon d now data)"
| "handle s d now (RegisterPartner data) = register_partner s d now data"
| "handle s d now (GetPartnerOrders sf) = (s, d, get_partner_orders s d sf)"
| "handle s d now (UpdateOrderStatus i data) = (s, update_order_status s d now i data)"
| "handle s d now GetAllPartners = (s, d, get_all_partners s d)"
| "handle s d now (ApprovePartner i) = (s, approve_partner s d i)"
| "handle s d now (GetAllOrders sf) = (s, d, get_all_orders s d sf)"
| "handle s d now (AssignPartner i data) = (s, assign_partner s d now i data)"
| "handle s d now GetAnalytics = (s, d, get_analytics s d)"

definition response_of :: "session \<times> db \<times> outcome \<Rightarrow> outcome" where
  "response_of r = snd (snd r)"

text \<open>
  The access requirement of each route as the interface table of the specification lists
  it: public, any session, or a session with a given role.
\<close>

datatype gate = Public | AnySession | RoleRequired string

fun spec_gate :: "request \<Rightarrow> gate" where
  "spec_gate (Register data) = Public"
| "spec_gate GetCurrentUser = AnySession"
| "spec_gate (CreateOrder num data) = AnySession"
| "spec_gate GetMyOrders = AnySession"
| "spec_gate (GetOrderDetails i) = AnySession"
| "spec_gate (ValidateCoupon data) = Public"
| "spec_gate (RegisterPartner data) = AnySession"
| "spec_gate (GetPartnerOrders sf) = RoleRequired ''partner''"
| "spec_gate (UpdateOrderStatus i data) = RoleRequired ''partner''"
| "spec_gate GetAllPartners = RoleRequired ''admin''"
| "spec_gate (ApprovePartner i) = RoleRequired ''admin''"
| "spec_gate (GetAllOrders sf) = RoleRequired ''admin''"
| "spec_gate (AssignPartner i data) = RoleRequired ''admin''"
| "spec_gate GetAnalytics = RoleRequired ''admin''"

section \<open>A sample database\<close>

text \<open>
  Two customers, a partner with its user, a user whose role is \<open>partner\<close> without a partner
  row, an admin, two services, one assigned order and four coupons: the seed coupon
  \<open>FIRST50\<close>, a fixed coupon that is exhausted and has a minimum order value, an
  expired one, and one with a minimum order value. The sample requests run at time 10.
\<close>

definition ex_user :: "nat \<Rightarrow> string \<Rightarrow> string \<Rightarrow> user" where
  "ex_user i ph r = \<lparr> u_id = i, u_phone = ph, u_name = Some ''N'', u_email = None,
     u_password_hash = Some (PwHash ''pw''), u_role = r, u_created_at = 0 \<rparr>"

definition ex_partner :: partner where
  "ex_partner = \<lparr> p_id = 1, p_user_id = 3, p_business_name = ''Strings'', p_address = ''A'',
     p_city = ''C'', p_pincode = ''1'', p_gst_number = None, p_bank_account = ''B'',
     p_ifsc_code = ''I'', p_status = ''approved'', p_commission_rate = 20, p_rating = 0,
     p_total_orders = 7, p_created_at = 0 \<rparr>"

definition ex_service :: "nat \<Rightarrow> rat \<Rightarrow> service" where
  "ex_service i pr = \<lparr> sv_id = i, sv_name = ''Restringing'', sv_category = Some ''stringing'',
     sv_base_price = pr, sv_description = None, sv_image_url = None, sv_is_active = True \<rparr>"

definition ex_order_data :: "nat \<Rightarrow> rat option \<Rightarrow> string option \<Rightarrow> order_data" where
  "ex_order_data sid sp code = \<lparr> od_service_id = Some sid, od_racquet_type = None,
     od_string_type = None, od_tension = None, od_pickup_address = None,
     od_pickup_slot = SlotTime 20, od_string_price = sp, od_coupon_code = code,
     od_payment_method = None \<rparr>"

definition ex_order :: order where
  "ex_order = (new_order \<lparr> users = [], partners = [], services = [], orders = [], coupons = [] \<rparr>
     1 ''PLR1'' 1 1 (ex_order_data 1 None None) 20 900 0 0 900) \<lparr> o_partner_id := Some 1 \<rparr>"

definition ex_coupon ::
  "nat \<Rightarrow> string \<Rightarrow> string \<Rightarrow> rat \<Rightarrow> rat \<Rightarrow> rat option \<Rightarrow> time \<Rightarrow> int option \<Rightarrow> int \<Rightarrow> coupon" where
  "ex_coupon i code ty v mn mx vu ul cnt = \<lparr> c_id = i, c_code = code,
     c_discount_type = Some ty, c_discount_value = Some v, c_min_order_value = mn,
     c_max_discount = mx, c_valid_from = Some 0, c_valid_until = Some vu,
     c_usage_limit = ul, c_usage_count = cnt, c_is_active = True \<rparr>"

definition ex_db :: db where
  "ex_db = \<lparr> users = [ex_user 1 ''111'' ''customer'', ex_user 2 ''222'' ''customer'',
                ex_user 3 ''333'' ''partner'', ex_user 4 ''444'' ''partner'',
                ex_user 5 ''555'' ''admin''],
     partners = [ex_partner],
     services = [ex_service 1 900, ex_service 2 50],
     orders = [ex_order],
     coupons = [ex_coupon 1 ''FIRST50'' ''percentage'' 50 0 (Some 200) 100 (Some 100) 0,
                ex_coupon 2 ''FLAT100'' ''fixed'' 100 500 None 100 (Some 1) 1,
                ex_coupon 3 ''OLD10'' ''percentage'' 10 0 None 5 None 0,
                ex_coupon 4 ''BIG20'' ''percentage'' 20 500 None 100 None 3] \<rparr>"

definition ex_partner_data :: partner_data where
  "ex_partner_data = \<lparr> pd_business_name = Some ''Shop'', pd_address = Some ''A'',
     pd_city = Some ''C'', pd_pincode = Some ''1'', pd_gst_number = None,
     pd_bank_account = Some ''B'', pd_ifsc_code = Some ''I'' \<rparr>"

definition ex_register_data :: register_data where
  "ex_register_data = \<lparr> rd_phone = Some ''666'', rd_password = Some ''pw'', rd_name = None,
     rd_email = None, rd_role = Some ''partner'' \<rparr>"

definition ex_sess :: "nat \<Rightarrow> string \<Rightarrow> session" where
  "ex_sess i r = Some \<lparr> user_id = i, role = r \<rparr>"

definition ex_create :: "nat \<Rightarrow> rat option \<Rightarrow> string \<Rightarrow> db \<times> outcome" where
  \<comment> \<open>customer 1 orders service \<open>sid\<close> with a coupon code\<close>
  "ex_create sid sp code =
     create_order (ex_sess 1 ''customer'') ex_db 10 ''PLR2'' (ex_order_data sid sp (Some code))"

definition ex_created_body :: "rat \<Rightarrow> json" where
  "ex_created_body tp = JObj [(''message'', JStr ''Order created successfully''),
     (''order_number'', JStr ''PLR2''), (''order_id'', JInt 2), (''total_price'', JNum tp)]"

definition ex_deliver :: "db \<Rightarrow> time \<Rightarrow> db \<times> outcome" where
  \<comment> \<open>the partner of user 3 sets order 1 to \<open>delivered\<close>\<close>
  "ex_deliver d t =
     update_order_status (ex_sess 3 ''partner'') d t 1 \<lparr> sd_status = Some ''delivered'' \<rparr>"

definition ex_register_twice :: "(session \<times> db \<times> outcome) \<times> (session \<times> db \<times> outcome)" where
  \<comment> \<open>customer 1 calls partner registration twice\<close>
  "ex_register_twice =
    (let r1 = register_partner (ex_sess 1 ''customer'') ex_db 10 ex_partner_data;
         r2 = register_partner (fst r1) (fst (snd r1)) 11 ex_partner_data
     in (r1, r2))"

definition ex_registered :: "session \<times> db \<times> outcome" where
  \<comment> \<open>a new user registers with the role \<open>partner\<close>\<close>
  "ex_registered = register None ex_db 10 ex_register_data"

definition ex_assign_second :: "db \<times> outcome" where
  \<comment> \<open>the admin assigns order 1 to the partner row of customer 1's second registration\<close>
  "ex_assign_second =
     assign_partner (ex_sess 5 ''admin'') (fst (snd (snd ex_register_twice))) 12 1
       \<lparr> ad_partner_id = Some (Some 3) \<rparr>"



lemmas ex_defs = ex_user_def ex_partner_def ex_service_def ex_order_data_def ex_order_def
  ex_coupon_def ex_db_def ex_sess_def new_order_def

lemmas eval_defs = ex_defs create_order_def get_service_def apply_coupon_def active_coupon_def
  get_string_price_def next_id_def cap_discount_def bump_usage_def error_body_def message_body_def

section \<open>Facts about the queries\<close>

lemma find_update_first:
  "(\<And>x. P x \<Longrightarrow> P (f x)) \<Longrightarrow> find P (update_first P f xs) = map_option f (find P xs)"
  by (induction xs) auto

lemma update_first_split:
  "find P xs = Some x \<Longrightarrow>
   \<exists>pre post. xs = pre @ x # post \<and> (\<forall>y\<in>set pre. \<not> P y) \<and> update_first P f xs = pre @ f x # post"
proof (induction xs)
  case Nil
  then show ?case by simp
next
  case (Cons a xs)
  show ?case
  proof (cases "P a")
    case True
    with Cons.prems have "a = x" by simp
    with True show ?thesis by (intro exI[of _ "[]"] exI[of _ xs]) simp
  next
    case False
    with Cons.prems have "find P xs = Some x" by simp
    from Cons.IH[OF this] obtain pre post where
      "xs = pre @ x # post" "\<forall>y\<in>set pre. \<not> P y" "update_first P f xs = pre @ f x # post"
      by blast
    with False show ?thesis by (intro exI[of _ "a # pre"] exI[of _ post]) simp
  qed
qed

lemma fold_max_ge: "a \<le> fold max ids (a::nat)"
  by (induction ids arbitrary: a) (auto intro: order_trans[OF max.cobounded2])

lemma fold_max_upper: "x \<in> set ids \<Longrightarrow> x \<le> fold max ids (a::nat)"
proof (induction ids arbitrary: a)
  case Nil
  then show ?case by simp
next
  case (Cons y ys)
  show ?case
  proof (cases "x = y")
    case True
    have "y \<le> max y a" by simp
    also have "\<dots> \<le> fold max ys (max y a)" by (rule fold_max_ge)
    finally show ?thesis using True by simp
  next
    case False
    with Cons.prems have "x \<in> set ys" by simp
    from Cons.IH[OF this] show ?thesis by simp
  qed
qed

lemma next_id_fresh: "next_id ids \<notin> set ids"
proof
  assume "next_id ids \<in> set ids"
  from fold_max_upper[OF this, of 0] show False by (simp add: next_id_def)
qed

section \<open>Order creation and coupons\<close>

lemma create_order_201E:
  assumes "create_order s d now num data = (d', Response 201 body)"
  obtains ss sid svc discount cs slot where
    "s = Some ss" "od_service_id data = Some sid" "get_service d sid = Some svc"
    "apply_coupon d now (sv_base_price svc) (get_string_price data) (od_coupon_code data)
       = Inr (discount, cs)"
    "od_pickup_slot data = SlotTime slot"
    "d' = d\<lparr> orders := orders d @ [new_order d now num (user_id ss) sid data slot
              (sv_base_price svc) (get_string_price data) discount
              (sv_base_price svc + get_string_price data - discount)],
            coupons := cs \<rparr>"
  using assms unfolding create_order_def
  by (auto simp: Let_def split: option.splits sum.splits slot_field.splits if_splits)




lemma apply_coupon_valid:
  assumes "apply_coupon d now b sp (Some code) = Inr (discount, cs)"
    and "code \<noteq> []" and "active_coupon d code = Some c"
    and "c_valid_until c = Some vu" and "now < vu"
  obtains v where "c_discount_value c = Some v"
    and "discount = (if c_discount_type c = Some ''percentage''
                     then cap_discount (c_max_discount c) ((b + sp) * (v / 100)) else v)"
    and "cs = bump_usage code (coupons d)"
  using assms by (auto simp: apply_coupon_def Let_def split: option.splits)



text \<open>
  C2. Whenever order creation succeeds with a supplied (non-empty) coupon code whose active
  coupon has \<open>valid_until\<close> after the current time, that coupon row's \<open>usage_count\<close> is
  one higher afterwards and every other coupon row is unchanged. Nothing is assumed about
  \<open>usage_limit\<close> or \<open>min_order_value\<close>: the increment also happens when the limit is
  already reached or the order value is below the minimum, as the sample request shows,
  where \<open>validate_coupon\<close> rejects the same coupon.
\<close>

theorem create_order_increments_usage_count:
  assumes "create_order s d now num data = (d', Response 201 body)"
    and "od_coupon_code data = Some code" and "code \<noteq> []"
    and "active_coupon d code = Some c"
    and "c_valid_until c = Some vu" and "now < vu"
  shows "active_coupon d' code = Some (c\<lparr> c_usage_count := c_usage_count c + 1 \<rparr>) \<and>
     (\<exists>pre post. coupons d = pre @ c # post \<and>
        coupons d' = pre @ c\<lparr> c_usage_count := c_usage_count c + 1 \<rparr> # post)"
proof -
  from assms(1) obtain ss sid svc discount cs slot where
    "s = Some ss" and "od_service_id data = Some sid" and "get_service d sid = Some svc"
    and ac: "apply_coupon d now (sv_base_price svc) (get_string_price data) (od_coupon_code data)
       = Inr (discount, cs)"
    and "od_pickup_slot data = SlotTime slot"
    and d': "d' = d\<lparr> orders := orders d @ [new_order d now num (user_id ss) sid data slot
              (sv_base_price svc) (get_string_price data) discount
              (sv_base_price svc + get_string_price data - discount)],
            coupons := cs \<rparr>"
    by (rule create_order_201E)
  from ac assms(2) have "apply_coupon d now (sv_base_price svc) (get_string_price data) (Some code)
       = Inr (discount, cs)" by simp
  from this assms(3-6) have cs: "cs = bump_usage code (coupons d)"
    by (rule apply_coupon_valid)
  have cd: "coupons d' = bump_usage code (coupons d)" using d' cs by simp
  let ?P = "\<lambda>x. c_code x = code \<and> c_is_active x"
  let ?f = "\<lambda>x. x\<lparr> c_usage_count := c_usage_count x + 1 \<rparr>"
  have fnd: "find ?P (coupons d) = Some c" using assms(4) by (simp add: active_coupon_def)
  have "find ?P (update_first ?P ?f (coupons d)) = map_option ?f (find ?P (coupons d))"
    by (rule find_update_first) simp
  with fnd cd have 1: "active_coupon d' code = Some (?f c)"
    by (simp add: active_coupon_def bump_usage_def)
  from update_first_split[OF fnd, of ?f] obtain pre post where
    "coupons d = pre @ c # post" "update_first ?P ?f (coupons d) = pre @ ?f c # post"
    by blast
  with cd have 2: "\<exists>pre post. coupons d = pre @ c # post \<and> coupons d' = pre @ ?f c # post"
    by (auto simp: bump_usage_def)
  from 1 2 show ?thesis by simp
qed

theorem create_order_increments_usage_count_witness:
  "usage_limit_reached (ex_coupon 2 ''FLAT100'' ''fixed'' 100 500 None 100 (Some 1) 1) \<and>
   50 < c_min_order_value (ex_coupon 2 ''FLAT100'' ''fixed'' 100 500 None 100 (Some 1) 1) \<and>
   validate_coupon ex_db 10 \<lparr> cd_code = Some ''FLAT100'', cd_order_value = Some 50 \<rparr>
     = Response 400 (error_body ''Coupon usage limit reached'') \<and>
   create_order (ex_sess 1 ''customer'') ex_db 10 ''PLR2'' (ex_order_data 2 None (Some ''FLAT100''))
     = (fst (ex_create 2 None ''FLAT100''), Response 201 (ex_created_body (- 50))) \<and>
   active_coupon ex_db ''FLAT100''
     = Some (ex_coupon 2 ''FLAT100'' ''fixed'' 100 500 None 100 (Some 1) 1) \<and>
   active_coupon (fst (ex_create 2 None ''FLAT100'')) ''FLAT100''
     = Some (ex_coupon 2 ''FLAT100'' ''fixed'' 100 500 None 100 (Some 1) 2)"
proof -
  let ?data = "ex_order_data 2 None (Some ''FLAT100'')"
  let ?d' = "fst (ex_create 2 None ''FLAT100'')"
  let ?c = "ex_coupon 2 ''FLAT100'' ''fixed'' 100 500 None 100 (Some 1) 1"
  have h: "create_order (ex_sess 1 ''customer'') ex_db 10 ''PLR2'' ?data
             = (?d', Response 201 (ex_created_body (- 50)))"
    by (simp add: eval_defs ex_create_def ex_created_body_def)
  have c: "od_coupon_code ?data = Some ''FLAT100''" "''FLAT100'' \<noteq> []"
    "active_coupon ex_db ''FLAT100'' = Some ?c" "c_valid_until ?c = Some 100" "(10::int) < 100"
    by (simp_all add: eval_defs ex_create_def ex_created_body_def)
  have v: "usage_limit_reached ?c" "50 < c_min_order_value ?c"
    "validate_coupon ex_db 10 \<lparr> cd_code = Some ''FLAT100'', cd_order_value = Some 50 \<rparr>
       = Response 400 (error_body ''Coupon usage limit reached'')"
    by (simp_all add: eval_defs ex_create_def ex_created_body_def validate_coupon_def usage_limit_reached_def)
  from create_order_increments_usage_count[OF h c]
  have "active_coupon ?d' ''FLAT100'' = Some (?c\<lparr> c_usage_count := c_usage_count ?c + 1 \<rparr>)"
    by simp
  then have "active_coupon ?d' ''FLAT100''
      = Some (ex_coupon 2 ''FLAT100'' ''fixed'' 100 500 None 100 (Some 1) 2)"
    by (simp add: ex_coupon_def)
  with h c v show ?thesis by simp
qed

lemma create_order_coupon_discount:
  assumes "create_order s d now num data = (d', Response 201 body)"
    and "od_coupon_code data = Some code" and "code \<noteq> []"
    and "active_coupon d code = Some c"
    and "c_valid_until c = Some vu" and "now < vu"
  obtains r v where "orders d' = orders d @ [r]" and "c_discount_value c = Some v"
    and "o_discount r = (if c_discount_type c = Some ''percentage''
           then cap_discount (c_max_discount c) ((o_base_price r + o_string_price r) * (v / 100))
           else v)"
    and "o_total_price r = o_base_price r + o_string_price r - o_discount r"
proof -
  from assms(1) obtain ss sid svc discount cs slot where
    "s = Some ss" and "od_service_id data = Some sid" and "get_service d sid = Some svc"
    and ac: "apply_coupon d now (sv_base_price svc) (get_string_price data) (od_coupon_code data)
       = Inr (discount, cs)"
    and "od_pickup_slot data = SlotTime slot"
    and d': "d' = d\<lparr> orders := orders d @ [new_order d now num (user_id ss) sid data slot
              (sv_base_price svc) (get_string_price data) discount
              (sv_base_price svc + get_string_price data - discount)],
            coupons := cs \<rparr>"
    by (rule create_order_201E)
  define r where "r = new_order d now num (user_id ss) sid data slot
              (sv_base_price svc) (get_string_price data) discount
              (sv_base_price svc + get_string_price data - discount)"
  from ac assms(2) have "apply_coupon d now (sv_base_price svc) (get_string_price data) (Some code)
       = Inr (discount, cs)" by simp
  from this assms(3-6) obtain v where v: "c_discount_value c = Some v"
    and dv: "discount = (if c_discount_type c = Some ''percentage''
                     then cap_discount (c_max_discount c)
                        ((sv_base_price svc + get_string_price data) * (v / 100)) else v)"
    by (rule apply_coupon_valid)
  have 1: "orders d' = orders d @ [r]" using d' by (simp add: r_def)
  have 2: "o_discount r = (if c_discount_type c = Some ''percentage''
           then cap_discount (c_max_discount c) ((o_base_price r + o_string_price r) * (v / 100))
           else v)"
    using dv by (simp add: r_def new_order_def)
  have 3: "o_total_price r = o_base_price r + o_string_price r - o_discount r"
    by (simp add: r_def new_order_def)
  from 1 v 2 3 show thesis by (rule that)
qed

text \<open>
  C3. An order created with a valid percentage coupon has discount
  \<open>(base_price + string_price) * (discount_value / 100)\<close>, capped at \<open>max_discount\<close> when
  that is set. The handler tests \<open>if coupon.max_discount\<close>, so "set" is Python truth:
  neither NULL nor 0. The sample request applies 50 percent with a cap of 200 to an order
  value of 1000 and gets the discount 200.
\<close>

theorem create_order_percentage_discount:
  assumes "create_order s d now num data = (d', Response 201 body)"
    and "od_coupon_code data = Some code" and "code \<noteq> []"
    and "active_coupon d code = Some c"
    and "c_valid_until c = Some vu" and "now < vu"
    and "c_discount_type c = Some ''percentage''"
  shows "\<exists>r v. orders d' = orders d @ [r] \<and> c_discount_value c = Some v \<and>
     o_discount r =
       (case c_max_discount c of
          None \<Rightarrow> (o_base_price r + o_string_price r) * (v / 100)
        | Some m \<Rightarrow> if m = 0 then (o_base_price r + o_string_price r) * (v / 100)
                    else min ((o_base_price r + o_string_price r) * (v / 100)) m)"
proof -
  from assms(1-6) obtain r v where "orders d' = orders d @ [r]" "c_discount_value c = Some v"
    "o_discount r = (if c_discount_type c = Some ''percentage''
           then cap_discount (c_max_discount c) ((o_base_price r + o_string_price r) * (v / 100))
           else v)"
    by (rule create_order_coupon_discount)
  with assms(7) show ?thesis
    by (intro exI[of _ r] exI[of _ v]) (simp add: cap_discount_def split: option.splits)
qed

theorem create_order_percentage_discount_witness:
  "create_order (ex_sess 1 ''customer'') ex_db 10 ''PLR2''
       (ex_order_data 1 (Some 100) (Some ''FIRST50''))
     = (fst (ex_create 1 (Some 100) ''FIRST50''), Response 201 (ex_created_body 800)) \<and>
   active_coupon ex_db ''FIRST50''
     = Some (ex_coupon 1 ''FIRST50'' ''percentage'' 50 0 (Some 200) 100 (Some 100) 0) \<and>
   o_base_price (last (orders (fst (ex_create 1 (Some 100) ''FIRST50''))))
     + o_string_price (last (orders (fst (ex_create 1 (Some 100) ''FIRST50'')))) = 1000 \<and>
   o_discount (last (orders (fst (ex_create 1 (Some 100) ''FIRST50'')))) = 200"
proof -
  let ?data = "ex_order_data 1 (Some 100) (Some ''FIRST50'')"
  let ?d' = "fst (ex_create 1 (Some 100) ''FIRST50'')"
  let ?c = "ex_coupon 1 ''FIRST50'' ''percentage'' 50 0 (Some 200) 100 (Some 100) 0"
  have h: "create_order (ex_sess 1 ''customer'') ex_db 10 ''PLR2'' ?data
             = (?d', Response 201 (ex_created_body 800))"
    by (simp add: eval_defs ex_create_def ex_created_body_def)
  have c: "od_coupon_code ?data = Some ''FIRST50''" "''FIRST50'' \<noteq> []"
    "active_coupon ex_db ''FIRST50'' = Some ?c" "c_valid_until ?c = Some 100" "(10::int) < 100"
    "c_discount_type ?c = Some ''percentage''"
    by (simp_all add: eval_defs ex_create_def ex_created_body_def)
  have b: "o_base_price (last (orders ?d')) + o_string_price (last (orders ?d')) = 1000"
    by (simp add: eval_defs ex_create_def ex_created_body_def)
  from create_order_percentage_discount[OF h c] obtain r v where
    "orders ?d' = orders ex_db @ [r]" "c_discount_value ?c = Some v"
    "o_discount r =
       (case c_max_discount ?c of
          None \<Rightarrow> (o_base_price r + o_string_price r) * (v / 100)
        | Some m \<Rightarrow> if m = 0 then (o_base_price r + o_string_price r) * (v / 100)
                    else min ((o_base_price r + o_string_price r) * (v / 100)) m)"
    by blast
  with b have "o_discount (last (orders ?d')) = 200"
    by (simp add: ex_coupon_def)
  with h c b show ?thesis by simp
qed

text \<open>
  C4. An order created with a valid coupon of type \<open>fixed\<close> has the coupon's
  \<open>discount_value\<close> as its discount, whatever the order value, and
  \<open>total_price = base_price + string_price - discount_value\<close>, which can be negative:
  the sample request applies a fixed coupon of 100 to an order value of 50 and stores the
  discount 100 and the total price -50.
\<close>

theorem create_order_fixed_discount:
  assumes "create_order s d now num data = (d', Response 201 body)"
    and "od_coupon_code data = Some code" and "code \<noteq> []"
    and "active_coupon d code = Some c"
    and "c_valid_until c = Some vu" and "now < vu"
    and "c_discount_type c = Some ''fixed''"
  shows "\<exists>r v. orders d' = orders d @ [r] \<and> c_discount_value c = Some v \<and>
     o_discount r = v \<and> o_total_price r = o_base_price r + o_string_price r - v"
proof -
  from assms(1-6) obtain r v where "orders d' = orders d @ [r]" "c_discount_value c = Some v"
    "o_discount r = (if c_discount_type c = Some ''percentage''
           then cap_discount (c_max_discount c) ((o_base_price r + o_string_price r) * (v / 100))
           else v)"
    "o_total_price r = o_base_price r + o_string_price r - o_discount r"
    by (rule create_order_coupon_discount)
  with assms(7) show ?thesis
    by (intro exI[of _ r] exI[of _ v]) simp
qed

theorem create_order_fixed_discount_witness:
  "create_order (ex_sess 1 ''customer'') ex_db 10 ''PLR2'' (ex_order_data 2 None (Some ''FLAT100''))
     = (fst (ex_create 2 None ''FLAT100''), Response 201 (ex_created_body (- 50))) \<and>
   o_base_price (last (orders (fst (ex_create 2 None ''FLAT100''))))
     + o_string_price (last (orders (fst (ex_create 2 None ''FLAT100'')))) = 50 \<and>
   o_discount (last (orders (fst (ex_create 2 None ''FLAT100'')))) = 100 \<and>
   o_total_price (last (orders (fst (ex_create 2 None ''FLAT100'')))) = - 50"
proof -
  let ?data = "ex_order_data 2 None (Some ''FLAT100'')"
  let ?d' = "fst (ex_create 2 None ''FLAT100'')"
  let ?c = "ex_coupon 2 ''FLAT100'' ''fixed'' 100 500 None 100 (Some 1) 1"
  have h: "create_order (ex_sess 1 ''customer'') ex_db 10 ''PLR2'' ?data
             = (?d', Response 201 (ex_created_body (- 50)))"
    by (simp add: eval_defs ex_create_def ex_created_body_def)
  have c: "od_coupon_code ?data = Some ''FLAT100''" "''FLAT100'' \<noteq> []"
    "active_coupon ex_db ''FLAT100'' = Some ?c" "c_valid_until ?c = Some 100" "(10::int) < 100"
    "c_discount_type ?c = Some ''fixed''"
    by (simp_all add: eval_defs ex_create_def ex_created_body_def)
  have b: "o_base_price (last (orders ?d')) + o_string_price (last (orders ?d')) = 50"
    by (simp add: eval_defs ex_create_def ex_created_body_def)
  from create_order_fixed_discount[OF h c] obtain r v where
    "orders ?d' = orders ex_db @ [r]" "c_discount_value ?c = Some v"
    "o_discount r = v" "o_total_price r = o_base_price r + o_string_price r - v"
    by blast
  with b have "o_discount (last (orders ?d')) = 100" "o_total_price (last (orders ?d')) = - 50"
    by (simp_all add: ex_coupon_def)
  with h b show ?thesis by simp
qed

section \<open>Coupon validation\<close>




section \<open>Order status updates\<close>

lemma update_order_status_200E:
  assumes "update_order_status s d now oid data = (d', Response 200 body)"
  obtains ss r p st where "s = Some ss" and "role ss = ''partner''"
    and "get_order d oid = Some r" and "partner_of_user d (user_id ss) = Some p"
    and "o_partner_id r = Some (p_id p)" and "sd_status data = Some st"
    and "body = message_body ''Order status updated''"
  using assms unfolding update_order_status_def
  by (auto simp: Let_def split: option.splits if_splits)

lemma update_order_status_run:
  assumes "role ss = ''partner''" and "get_order d oid = Some r"
    and "partner_of_user d (user_id ss) = Some p" and "o_partner_id r = Some (p_id p)"
    and "sd_status data = Some st"
  shows "update_order_status (Some ss) d now oid data =
    (let d1 = d\<lparr> orders := update_first (\<lambda>x. o_id x = oid)
                  (\<lambda>x. x\<lparr> o_status := st, o_updated_at := now \<rparr>) (orders d) \<rparr>
     in if st = ''delivered'' then mark_delivered now oid (user_id ss) d1 else d1,
     Response 200 (message_body ''Order status updated''))"
  using assms by (simp add: update_order_status_def Let_def)

lemma delivered_get_order:
  assumes "get_order d oid = Some r"
  shows "get_order (mark_delivered now oid uid
           (d\<lparr> orders := update_first (\<lambda>x. o_id x = oid)
                  (\<lambda>x. x\<lparr> o_status := st, o_updated_at := now \<rparr>) (orders d) \<rparr>)) oid
         = Some (r\<lparr> o_status := st, o_updated_at := now, o_completed_at := Some now \<rparr>)"
  using assms by (simp add: get_order_def mark_delivered_def find_update_first)

lemma delivered_partners:
  "partners (mark_delivered now oid uid
           (d\<lparr> orders := update_first (\<lambda>x. o_id x = oid)
                  (\<lambda>x. x\<lparr> o_status := st, o_updated_at := now \<rparr>) (orders d) \<rparr>))
   = update_first (\<lambda>x. p_user_id x = uid)
       (\<lambda>x. x\<lparr> p_total_orders := p_total_orders x + 1 \<rparr>) (partners d)"
  by (simp add: mark_delivered_def)

lemma delivered_partner_of_user:
  assumes "partner_of_user d uid = Some p"
  shows "partner_of_user (mark_delivered now oid uid
           (d\<lparr> orders := update_first (\<lambda>x. o_id x = oid)
                  (\<lambda>x. x\<lparr> o_status := st, o_updated_at := now \<rparr>) (orders d) \<rparr>)) uid
         = Some (p\<lparr> p_total_orders := p_total_orders p + 1 \<rparr>)"
  using assms by (simp add: partner_of_user_def mark_delivered_def find_update_first)

text \<open>
  C5. Every partner status update that succeeds with the status \<open>delivered\<close> sets the
  order's \<open>completed_at\<close> to the current time and adds exactly 1 to \<open>total_orders\<close> of
  the partner the order is assigned to (the session user's partner row), leaving every other
  partner row as it was. The increment is not idempotent: the same request sent again
  succeeds again, and \<open>total_orders\<close> is then 2 higher than at the start.
\<close>

theorem update_order_status_delivered:
  assumes "update_order_status s d now order_id data = (d', Response 200 body)"
    and "sd_status data = Some ''delivered''"
  shows "\<exists>ss r p. s = Some ss \<and> get_order d order_id = Some r \<and>
     partner_of_user d (user_id ss) = Some p \<and> o_partner_id r = Some (p_id p) \<and>
     get_order d' order_id = Some (r\<lparr> o_status := ''delivered'', o_updated_at := now,
                                       o_completed_at := Some now \<rparr>) \<and>
     (\<exists>pre post. partners d = pre @ p # post \<and>
        partners d' = pre @ p\<lparr> p_total_orders := p_total_orders p + 1 \<rparr> # post) \<and>
     (\<forall>now2. \<exists>d''. update_order_status s d' now2 order_id data = (d'', Response 200 body) \<and>
        get_order d'' order_id = Some (r\<lparr> o_status := ''delivered'', o_updated_at := now2,
                                          o_completed_at := Some now2 \<rparr>) \<and>
        partner_of_user d'' (user_id ss)
          = Some (p\<lparr> p_total_orders := p_total_orders p + 2 \<rparr>))"
proof -
  from assms(1) obtain ss r p st where s: "s = Some ss" and ro: "role ss = ''partner''"
    and r: "get_order d order_id = Some r" and p: "partner_of_user d (user_id ss) = Some p"
    and rp: "o_partner_id r = Some (p_id p)" and "sd_status data = Some st"
    and body: "body = message_body ''Order status updated''"
    by (rule update_order_status_200E)
  let ?upd = "\<lambda>t e. mark_delivered t order_id (user_id ss)
      (e\<lparr> orders := update_first (\<lambda>x. o_id x = order_id)
             (\<lambda>x. x\<lparr> o_status := ''delivered'', o_updated_at := t \<rparr>) (orders e) \<rparr>)"
  from update_order_status_run[OF ro r p rp assms(2), of now] assms(1) s
  have d': "d' = ?upd now d" by simp
  let ?r1 = "r\<lparr> o_status := ''delivered'', o_updated_at := now, o_completed_at := Some now \<rparr>"
  let ?p1 = "p\<lparr> p_total_orders := p_total_orders p + 1 \<rparr>"
  have r1: "get_order d' order_id = Some ?r1"
    unfolding d' using r by (rule delivered_get_order)
  have p1: "partner_of_user d' (user_id ss) = Some ?p1"
    unfolding d' using p by (rule delivered_partner_of_user)
  have fnd: "find (\<lambda>x. p_user_id x = user_id ss) (partners d) = Some p"
    using p by (simp add: partner_of_user_def)
  from update_first_split[OF fnd, of "\<lambda>x. x\<lparr> p_total_orders := p_total_orders x + 1 \<rparr>"]
  have sp: "\<exists>pre post. partners d = pre @ p # post \<and> partners d' = pre @ ?p1 # post"
    unfolding d' delivered_partners by blast
  have rp1: "o_partner_id ?r1 = Some (p_id ?p1)" using rp by simp
  have again: "\<forall>now2. \<exists>d''. update_order_status s d' now2 order_id data = (d'', Response 200 body) \<and>
        get_order d'' order_id = Some (r\<lparr> o_status := ''delivered'', o_updated_at := now2,
                                          o_completed_at := Some now2 \<rparr>) \<and>
        partner_of_user d'' (user_id ss)
          = Some (p\<lparr> p_total_orders := p_total_orders p + 2 \<rparr>)"
  proof
    fix now2
    from update_order_status_run[OF ro r1 p1 rp1 assms(2), of now2] s body
    have run: "update_order_status s d' now2 order_id data = (?upd now2 d', Response 200 body)"
      by simp
    have r2: "get_order (?upd now2 d') order_id = Some (r\<lparr> o_status := ''delivered'',
                 o_updated_at := now2, o_completed_at := Some now2 \<rparr>)"
      using delivered_get_order[OF r1, of now2 "user_id ss" "''delivered''"] by simp
    have p2: "partner_of_user (?upd now2 d') (user_id ss)
          = Some (p\<lparr> p_total_orders := p_total_orders p + 2 \<rparr>)"
      using delivered_partner_of_user[OF p1, of now2 order_id "''delivered''"] by simp
    from run r2 p2
    show "\<exists>d''. update_order_status s d' now2 order_id data = (d'', Response 200 body) \<and>
        get_order d'' order_id = Some (r\<lparr> o_status := ''delivered'', o_updated_at := now2,
                                          o_completed_at := Some now2 \<rparr>) \<and>
        partner_of_user d'' (user_id ss)
          = Some (p\<lparr> p_total_orders := p_total_orders p + 2 \<rparr>)"
      by blast
  qed
  show ?thesis
    by (rule exI[of _ ss], rule exI[of _ r], rule exI[of _ p]) (intro conjI s r p rp r1 sp again)
qed

theorem update_order_status_delivered_witness:
  "update_order_status (ex_sess 3 ''partner'') ex_db 10 1 \<lparr> sd_status = Some ''delivered'' \<rparr>
     = (fst (ex_deliver ex_db 10), Response 200 (message_body ''Order status updated'')) \<and>
   map_option p_total_orders (partner_of_user ex_db 3) = Some 7 \<and>
   map_option o_completed_at (get_order (fst (ex_deliver ex_db 10)) 1) = Some (Some 10) \<and>
   map p_total_orders (partners (fst (ex_deliver ex_db 10))) = [8] \<and>
   map_option p_total_orders
     (partner_of_user (fst (ex_deliver (fst (ex_deliver ex_db 10)) 11)) 3) = Some 9"
proof -
  let ?s = "ex_sess 3 ''partner''"
  let ?data = "\<lparr> sd_status = Some ''delivered'' \<rparr>"
  let ?d1 = "fst (ex_deliver ex_db 10)"
  let ?body = "message_body ''Order status updated''"
  have h: "update_order_status ?s ex_db 10 1 ?data = (?d1, Response 200 ?body)"
    by (simp add: ex_defs ex_deliver_def next_id_def update_order_status_def get_order_def partner_of_user_def
          mark_delivered_def)
  have st: "sd_status ?data = Some ''delivered''" by simp
  have p0: "partner_of_user ex_db 3 = Some ex_partner" "?s = Some \<lparr> user_id = 3, role = ''partner'' \<rparr>"
    "p_total_orders ex_partner = 7"
    by (simp_all add: ex_defs partner_of_user_def)
  from update_order_status_delivered[OF h st] obtain ss r p where
    "?s = Some ss" "get_order ex_db 1 = Some r" "partner_of_user ex_db (user_id ss) = Some p"
    and g1: "get_order ?d1 1 = Some (r\<lparr> o_status := ''delivered'', o_updated_at := 10,
                                 o_completed_at := Some 10 \<rparr>)"
    and sp: "\<exists>pre post. partners ex_db = pre @ p # post \<and>
        partners ?d1 = pre @ p\<lparr> p_total_orders := p_total_orders p + 1 \<rparr> # post"
    and ag: "\<forall>now2. \<exists>d''. update_order_status ?s ?d1 now2 1 ?data = (d'', Response 200 ?body) \<and>
        partner_of_user d'' (user_id ss) = Some (p\<lparr> p_total_orders := p_total_orders p + 2 \<rparr>)"
    by blast
  with p0 have ss: "ss = \<lparr> user_id = 3, role = ''partner'' \<rparr>" and p: "p = ex_partner"
    by simp_all
  have 1: "map_option o_completed_at (get_order ?d1 1) = Some (Some 10)"
    using g1 by simp
  from sp p have 2: "map p_total_orders (partners ?d1) = [8]"
    by (auto simp: ex_db_def ex_partner_def Cons_eq_append_conv)
  from ag obtain d'' where
    "update_order_status ?s ?d1 11 1 ?data = (d'', Response 200 ?body)"
    "partner_of_user d'' (user_id ss) = Some (p\<lparr> p_total_orders := p_total_orders p + 2 \<rparr>)"
    by blast
  then have 3: "map_option p_total_orders (partner_of_user (fst (ex_deliver ?d1 11)) 3) = Some 9"
    using ss p p0 by (simp add: ex_deliver_def)
  from h p0 1 2 3 show ?thesis by simp
qed

text \<open>
  C10. With a session whose role is \<open>partner\<close> and no partner row for its user, a status
  update of an existing order does not answer with a response: the handler reads
  \<open>partner.id\<close> of \<open>None\<close> and the AttributeError escapes, with nothing committed.
  The sample run reaches that state through registration with the role \<open>partner\<close>.
\<close>

theorem update_order_status_missing_partner:
  assumes "role ss = ''partner''" and "partner_of_user d (user_id ss) = None"
    and "get_order d order_id = Some r"
  shows "update_order_status (Some ss) d now order_id data = (d, Raised AttributeError)"
  using assms by (simp add: update_order_status_def)

theorem update_order_status_missing_partner_witness:
  "snd (snd ex_registered) = Response 201 (JObj [(''message'', JStr ''Registration successful''),
      (''user'', JObj [(''id'', JInt 6), (''name'', JNull), (''phone'', JStr ''666''),
                       (''role'', JStr ''partner'')])]) \<and>
   fst ex_registered = Some \<lparr> user_id = 6, role = ''partner'' \<rparr> \<and>
   role \<lparr> user_id = 6, role = ''partner'' \<rparr> = ''partner'' \<and>
   partner_of_user (fst (snd ex_registered)) (user_id \<lparr> user_id = 6, role = ''partner'' \<rparr>) = None \<and>
   get_order (fst (snd ex_registered)) 1 = Some ex_order \<and>
   update_order_status (Some \<lparr> user_id = 6, role = ''partner'' \<rparr>) (fst (snd ex_registered)) 11 1
       \<lparr> sd_status = Some ''picked_up'' \<rparr>
     = (fst (snd ex_registered), Raised AttributeError)"
proof -
  let ?ss = "\<lparr> user_id = 6, role = ''partner'' \<rparr>"
  have reg: "snd (snd ex_registered) = Response 201 (JObj [(''message'', JStr ''Registration successful''),
      (''user'', JObj [(''id'', JInt 6), (''name'', JNull), (''phone'', JStr ''666''),
                       (''role'', JStr ''partner'')])])"
    "fst ex_registered = Some ?ss"
    by (simp_all add: ex_defs ex_registered_def ex_register_data_def register_def next_id_def user_public_def jstr_opt_def Let_def)
  have a: "role ?ss = ''partner''" by simp
  have b: "partner_of_user (fst (snd ex_registered)) (user_id ?ss) = None"
    by (simp add: ex_defs ex_registered_def ex_register_data_def register_def next_id_def partner_of_user_def Let_def)
  have c: "get_order (fst (snd ex_registered)) 1 = Some ex_order"
    by (simp add: ex_defs ex_registered_def ex_register_data_def register_def next_id_def get_order_def Let_def)
  from update_order_status_missing_partner[OF a b c, of 11 "\<lparr> sd_status = Some ''picked_up'' \<rparr>"]
    reg a b c
  show ?thesis by simp
qed

section \<open>Access control\<close>

lemmas gate_defs = get_current_user_def create_order_def get_my_orders_def
  get_order_details_def register_partner_def get_partner_orders_def update_order_status_def
  get_all_partners_def approve_partner_def get_all_orders_def assign_partner_def
  get_analytics_def has_role_def

text \<open>
  C6, as amended. A request without a session gets 401 from the routes that only need a
  session, and 403 from the routes that need the partner or the admin role; a session with
  another role gets 403 from those routes. In each case the session and the database are
  unchanged. The 401/403 distinction therefore holds on the session-only routes, not on the
  role-gated ones.
\<close>

theorem gate_status_codes:
  "(spec_gate req = AnySession \<longrightarrow>
      handle None d now req = (None, d, Response 401 (error_body ''Not authenticated''))) \<and>
   (\<forall>rl. spec_gate req = RoleRequired rl \<longrightarrow>
      handle None d now req = (None, d, Response 403 (error_body ''Unauthorized'')) \<and>
      (\<forall>ss. role ss \<noteq> rl \<longrightarrow>
         handle (Some ss) d now req = (Some ss, d, Response 403 (error_body ''Unauthorized''))))"
  by (cases req) (simp_all add: gate_defs)

theorem gate_status_codes_witness:
  "spec_gate GetMyOrders = AnySession \<and>
   handle None ex_db 10 GetMyOrders = (None, ex_db, Response 401 (error_body ''Not authenticated'')) \<and>
   spec_gate GetAnalytics = RoleRequired ''admin'' \<and>
   handle None ex_db 10 GetAnalytics = (None, ex_db, Response 403 (error_body ''Unauthorized'')) \<and>
   role \<lparr> user_id = 1, role = ''customer'' \<rparr> \<noteq> ''admin'' \<and>
   handle (Some \<lparr> user_id = 1, role = ''customer'' \<rparr>) ex_db 10 GetAnalytics
     = (Some \<lparr> user_id = 1, role = ''customer'' \<rparr>, ex_db, Response 403 (error_body ''Unauthorized''))"
proof -
  have a: "spec_gate GetMyOrders = AnySession" and b: "spec_gate GetAnalytics = RoleRequired ''admin''"
    and c: "role \<lparr> user_id = 1, role = ''customer'' \<rparr> \<noteq> ''admin''"
    by simp_all
  from gate_status_codes[of GetMyOrders ex_db 10] a
  have 1: "handle None ex_db 10 GetMyOrders
      = (None, ex_db, Response 401 (error_body ''Not authenticated''))"
    by blast
  from gate_status_codes[of GetAnalytics ex_db 10] b c
  have 2: "handle None ex_db 10 GetAnalytics = (None, ex_db, Response 403 (error_body ''Unauthorized''))"
    "handle (Some \<lparr> user_id = 1, role = ''customer'' \<rparr>) ex_db 10 GetAnalytics
     = (Some \<lparr> user_id = 1, role = ''customer'' \<rparr>, ex_db, Response 403 (error_body ''Unauthorized''))"
    by blast+
  from a b c 1 2 show ?thesis by blast
qed

text \<open>
  C6 as stated fails: the partner order list needs the partner role, and a request without
  a session gets 403 from it, not 401.
\<close>

theorem partner_orders_no_session_counterexample:
  "spec_gate (GetPartnerOrders None) = RoleRequired ''partner'' \<and>
   status_code (response_of (handle None ex_db 10 (GetPartnerOrders None))) = Some 403 \<and>
   status_code (response_of (handle None ex_db 10 (GetPartnerOrders None))) \<noteq> Some 401"
  by (simp add: get_partner_orders_def response_of_def)

text \<open>
  C7. For a request for the detail of an existing order by an authenticated session:
  a customer who is not the order's customer gets 403; a partner or an admin gets 200
  with the order, that is, its id, order number, service name and category, request details,
  pickup slot, prices, status, payment status, creation time and the business name of its
  partner, whoever its customer is and whichever partner it is assigned to (the order's
  service row exists, as its foreign key requires). In the sample database the order belongs
  to customer 1 and partner 1, and customer 2 is refused while a partner user without any
  partner row and the admin both read it.
\<close>

theorem get_order_details_authorization:
  assumes "find (\<lambda>x. o_id x = order_id) (orders d) = Some r"
  shows "(role ss = ''customer'' \<and> o_customer_id r \<noteq> user_id ss \<longrightarrow>
            get_order_details (Some ss) d order_id
              = Response 403 (JObj [(''error'', JStr ''Unauthorized'')])) \<and>
         (role ss = ''partner'' \<or> role ss = ''admin'' \<longrightarrow>
            (\<forall>sv. find (\<lambda>x. sv_id x = o_service_id r) (services d) = Some sv \<longrightarrow>
               get_order_details (Some ss) d order_id
                 = Response 200 (JObj [
                     (''id'', JInt (int (o_id r))),
                     (''order_number'', JStr (o_order_number r)),
                     (''service'', JObj [(''name'', JStr (sv_name sv)),
                        (''category'', (case sv_category sv of None \<Rightarrow> JNull | Some x \<Rightarrow> JStr x))]),
                     (''racquet_type'', (case o_racquet_type r of None \<Rightarrow> JNull | Some x \<Rightarrow> JStr x)),
                     (''string_type'', (case o_string_type r of None \<Rightarrow> JNull | Some x \<Rightarrow> JStr x)),
                     (''tension'', (case o_tension r of None \<Rightarrow> JNull | Some x \<Rightarrow> JStr x)),
                     (''pickup_address'',
                        (case o_pickup_address r of None \<Rightarrow> JNull | Some x \<Rightarrow> JStr x)),
                     (''pickup_slot'', (case o_pickup_slot r of None \<Rightarrow> JNull | Some t \<Rightarrow> JIso t)),
                     (''base_price'', JNum (o_base_price r)),
                     (''string_price'', JNum (o_string_price r)),
                     (''discount'', JNum (o_discount r)),
                     (''total_price'', JNum (o_total_price r)),
                     (''status'', JStr (o_status r)),
                     (''payment_status'', JStr (o_payment_status r)),
                     (''created_at'', JIso (o_created_at r)),
                     (''partner'',
                        (case o_partner_id r of
                           None \<Rightarrow> JNull
                         | Some i \<Rightarrow>
                            (case find (\<lambda>p. p_id p = i) (partners d) of
                               None \<Rightarrow> JNull
                             | Some p \<Rightarrow> JObj [(''business_name'', JStr (p_business_name p))])))])))"
  using assms
  by (auto simp: get_order_details_def get_order_def get_service_def get_partner_def
        order_detail_body_def order_partner_def error_body_def jstr_opt_def jiso_opt_def
      split: option.splits)

theorem get_order_details_authorization_witness:
  "find (\<lambda>x. o_id x = 1) (orders ex_db) = Some ex_order \<and>
   o_customer_id ex_order = 1 \<and> o_partner_id ex_order = Some 1 \<and>
   partner_of_user ex_db 4 = None \<and>
   find (\<lambda>x. sv_id x = o_service_id ex_order) (services ex_db) = Some (ex_service 1 900) \<and>
   get_order_details (Some \<lparr> user_id = 2, role = ''customer'' \<rparr>) ex_db 1
     = Response 403 (JObj [(''error'', JStr ''Unauthorized'')]) \<and>
   get_order_details (Some \<lparr> user_id = 4, role = ''partner'' \<rparr>) ex_db 1
     = Response 200 (JObj [(''id'', JInt 1), (''order_number'', JStr ''PLR1''),
         (''service'', JObj [(''name'', JStr ''Restringing''), (''category'', JStr ''stringing'')]),
         (''racquet_type'', JNull), (''string_type'', JNull), (''tension'', JNull),
         (''pickup_address'', JNull), (''pickup_slot'', JIso 20),
         (''base_price'', JNum 900), (''string_price'', JNum 0), (''discount'', JNum 0),
         (''total_price'', JNum 900), (''status'', JStr ''pending''),
         (''payment_status'', JStr ''pending''), (''created_at'', JIso 1),
         (''partner'', JObj [(''business_name'', JStr ''Strings'')])]) \<and>
   get_order_details (Some \<lparr> user_id = 5, role = ''admin'' \<rparr>) ex_db 1
     = get_order_details (Some \<lparr> user_id = 4, role = ''partner'' \<rparr>) ex_db 1"
proof -
  have o: "find (\<lambda>x. o_id x = 1) (orders ex_db) = Some ex_order"
    and f: "o_customer_id ex_order = 1" "o_partner_id ex_order = Some 1"
      "partner_of_user ex_db 4 = None"
    and sv: "find (\<lambda>x. sv_id x = o_service_id ex_order) (services ex_db) = Some (ex_service 1 900)"
    by (simp_all add: ex_defs next_id_def partner_of_user_def)
  from get_order_details_authorization[OF o, of "\<lparr> user_id = 2, role = ''customer'' \<rparr>"] f
  have 1: "get_order_details (Some \<lparr> user_id = 2, role = ''customer'' \<rparr>) ex_db 1
     = Response 403 (JObj [(''error'', JStr ''Unauthorized'')])" by simp
  from get_order_details_authorization[OF o, of "\<lparr> user_id = 4, role = ''partner'' \<rparr>"] sv
  have 2: "get_order_details (Some \<lparr> user_id = 4, role = ''partner'' \<rparr>) ex_db 1
     = Response 200 (JObj [(''id'', JInt 1), (''order_number'', JStr ''PLR1''),
         (''service'', JObj [(''name'', JStr ''Restringing''), (''category'', JStr ''stringing'')]),
         (''racquet_type'', JNull), (''string_type'', JNull), (''tension'', JNull),
         (''pickup_address'', JNull), (''pickup_slot'', JIso 20),
         (''base_price'', JNum 900), (''string_price'', JNum 0), (''discount'', JNum 0),
         (''total_price'', JNum 900), (''status'', JStr ''pending''),
         (''payment_status'', JStr ''pending''), (''created_at'', JIso 1),
         (''partner'', JObj [(''business_name'', JStr ''Strings'')])])"
    by (simp add: ex_defs next_id_def)
  from get_order_details_authorization[OF o, of "\<lparr> user_id = 5, role = ''admin'' \<rparr>"] sv
  have 3: "get_order_details (Some \<lparr> user_id = 5, role = ''admin'' \<rparr>) ex_db 1
     = get_order_details (Some \<lparr> user_id = 4, role = ''partner'' \<rparr>) ex_db 1"
    unfolding 2 by (simp add: ex_defs next_id_def)
  from o f sv 1 2 3 show ?thesis by simp
qed

section \<open>Partner registration\<close>

text \<open>
  C9. The claim is that a user is referenced by at most one partner row. The handler does
  not keep it: customer 1 of the sample database registers as a partner twice, both calls
  answer 201, and the partner table then holds two rows with that user's id. The handlers
  that look a user's partner up take the first such row only, so once the admin assigns an
  order to the second row, its owner's status update of that order is answered 404.
\<close>

theorem register_partner_twice_duplicates:
  "snd (snd (fst ex_register_twice))
     = Response 201 (JObj [(''message'', JStr ''Partner registration submitted for approval'')]) \<and>
   snd (snd (snd ex_register_twice))
     = Response 201 (JObj [(''message'', JStr ''Partner registration submitted for approval'')]) \<and>
   fst (snd ex_register_twice) = Some \<lparr> user_id = 1, role = ''partner'' \<rparr> \<and>
   map p_user_id (partners ex_db) = [3] \<and>
   map p_user_id (partners (fst (snd (snd ex_register_twice)))) = [3, 1, 1] \<and>
   map p_id (partners (fst (snd (snd ex_register_twice)))) = [1, 2, 3] \<and>
   \<not> distinct (map p_user_id (partners (fst (snd (snd ex_register_twice))))) \<and>
   snd ex_assign_second
     = Response 200 (JObj [(''message'', JStr ''Partner assigned successfully'')]) \<and>
   map o_partner_id (orders (fst ex_assign_second)) = [Some 3] \<and>
   update_order_status (Some \<lparr> user_id = 1, role = ''partner'' \<rparr>) (fst ex_assign_second) 13 1
       \<lparr> sd_status = Some ''picked_up'' \<rparr>
     = (fst ex_assign_second, Response 404 (JObj [(''error'', JStr ''Order not found'')]))"
  by (simp add: ex_defs ex_assign_second_def ex_register_twice_def ex_partner_data_def
        register_partner_def new_partner_def get_user_def next_id_def Let_def
        assign_partner_def has_role_def get_order_def update_order_status_def
        partner_of_user_def message_body_def error_body_def)

end
